theory Spec2Isabelle
  imports Main
begin

section \<open>The mruby command-line driver (tools/mruby/mruby.c)\<close>

text \<open>
  The driver is glue code: it parses the argument vector, opens files and calls the
  interpreter engine. The model makes every call that leaves the driver an event of a
  trace, in program order, and takes every answer of the outside world (the file system,
  the engine) from an environment record. Heap allocation is taken to succeed.
\<close>

subsection \<open>Streams, events and the environment\<close>

text \<open>A \<open>FILE *\<close>: one of the standard streams, or a stream \<open>fopen\<close> returned for
  a path and a mode. \<open>NULL\<close> is \<open>None\<close> of \<open>stream option\<close>.\<close>

datatype stream = Stdin | Stdout | Fp string string

text \<open>An argument of a \<open>printf\<close> call: an \<open>int\<close> for \<open>%d\<close>, a \<open>char *\<close> for
  \<open>%s\<close> (which may be \<open>NULL\<close>).\<close>

datatype printf_arg = D int | S string | Null

definition str_arg :: "string option \<Rightarrow> printf_arg" where
  "str_arg p = (case p of None \<Rightarrow> Null | Some s \<Rightarrow> S s)"

text \<open>The heap blocks the driver owns.\<close>

datatype buffer = Outfile_buf | Cmdline_buf | Argv_buf

datatype event =
    Printf string "printf_arg list"
  | Fprintf_stderr string "printf_arg list"
  | Fopen string string bool
  | Fclose stream
  | Malloc buffer
  | Realloc buffer
  | Free buffer
  | Exit_call int
  | Mrb_open0
  | Mrb_show_version
  | Mrb_show_copyright
  | Mrb_init_libs
  | Fstat_stdin
  | Mirb
  | Mrb_define_global_const string "string list"
  | Mrb_read_irep_file "stream option"
  | Mrb_run int
  | Mrbc_context_new
  | Mrbc_filename "string option"
  | Mrb_load_file_cxt stream bool bool
  | Mrb_load_string_cxt "string option" bool bool
  | Mrb_bdump_irep int stream string
  | Mrb_dump_irep int stream
  | Mrbc_context_free
  | P_exc
  | Mrb_close

text \<open>What the driver reads of an \<open>mrb_value\<close>: the macros \<open>mrb_undef_p\<close> and
  \<open>mrb_fixnum\<close>.\<close>

record mrb_value =
  mrb_undef_p :: bool
  mrb_fixnum :: int

text \<open>The engine's structures as far as \<open>showcallinfo\<close> reads them. Pointers into an
  instruction sequence are addresses counted in \<open>mrb_code\<close> units. An array of the engine
  is the function from an index to what the memory holds there: the driver reads
  \<open>cibase[i]\<close> and \<open>lines[k]\<close> without a check against the arrays' lengths, and so does
  the model.\<close>

record mrb_irep =
  irep_filename :: "string option"
  irep_lines :: "(int \<Rightarrow> int) option"
  iseq :: int
  ilen :: int

record RProc =
  cfunc_p :: bool
  body_irep :: mrb_irep
  proc_target_class :: nat

record mrb_callinfo =
  ci_proc :: RProc
  ci_pc :: int
  ci_target_class :: nat
  ci_mid :: nat

record env =
  open0_ok :: bool
  fopen_ok :: "string \<Rightarrow> string \<Rightarrow> bool"
  stdin_is_fifo :: bool
  stdin_size :: int
  mirb_ret :: int
  read_irep_ret :: int
  run_exc :: bool
  load_v :: mrb_value
  load_exc :: bool
  bdump_ret :: int
  dump_ret :: int
  cibase :: "int \<Rightarrow> mrb_callinfo"
  ci_count :: int
  exc_ciidx :: int
  exc_lastpc :: int
  sym2name :: "nat \<Rightarrow> string option"
  class_name :: "nat \<Rightarrow> string option"

subsection \<open>The run configuration and the locals of \<open>parse_args\<close>\<close>

definition RITEBIN_EXT :: string where "RITEBIN_EXT = ''.mrb''"
definition C_EXT :: string where "C_EXT = ''.c''"

definition kErrNoFunctionName :: int where "kErrNoFunctionName = - 2"
definition kErrUnkownLongOption :: int where "kErrUnkownLongOption = - 3"
definition kErrUnkownOption :: int where "kErrUnkownOption = - 4"

definition EXIT_SUCCESS :: int where "EXIT_SUCCESS = 0"
definition EXIT_FAILURE :: int where "EXIT_FAILURE = 1"

text \<open>\<open>struct _args\<close>; the one-bit fields are truth values.\<close>

record args =
  rfp :: "stream option"
  wfp :: "stream option"
  filename :: "string option"
  initname :: "string option"
  ext :: string
  cmdline :: "string option"
  fname :: bool
  mrbfile :: bool
  check_syntax :: bool
  verbose :: bool
  argc :: int
  argv :: "string list option"

definition args_zero :: args where
  "args_zero = \<lparr> rfp = None, wfp = None, filename = None, initname = None, ext = [],
     cmdline = None, fname = False, mrbfile = False, check_syntax = False,
     verbose = False, argc = 0, argv = None \<rparr>"

text \<open>\<open>outfile\<close> is either a block from \<open>get_outfilename\<close> or the very pointer held
  by \<open>infile\<close>; the test \<open>infile != outfile\<close> at the exit label tells the two apart.\<close>

datatype ptr_origin = Malloced | Same_as_infile

text \<open>The state of \<open>parse_args\<close>: the fields of \<open>*args\<close>, the locals, and the events
  so far.\<close>

record parse_state = args +
  output_flag :: bool
  infile :: "string option"
  outfile :: "(ptr_origin \<times> string) option"
  result :: int
  trace :: "event list"

definition emit :: "event list \<Rightarrow> parse_state \<Rightarrow> parse_state" where
  "emit es s = s\<lparr> trace := trace s @ es \<rparr>"

definition parse_init :: parse_state where
  "parse_init = args.extend (args_zero\<lparr> ext := RITEBIN_EXT \<rparr>)
     \<lparr> output_flag = False, infile = None, outfile = None, result = 0, trace = [] \<rparr>"

subsection \<open>\<open>get_outfilename\<close>\<close>

text \<open>\<open>strrchr\<close>: the index of the last occurrence of the character, if any.\<close>

fun strrchr :: "string \<Rightarrow> char \<Rightarrow> nat option" where
  "strrchr [] c = None"
| "strrchr (x # xs) c =
     (case strrchr xs c of
        Some i \<Rightarrow> Some (Suc i)
      | None \<Rightarrow> if x = c then Some 0 else None)"

text \<open>\<open>strcpy(p, ext)\<close> with \<open>p = outfile + k\<close> keeps the first \<open>k\<close> characters.\<close>

definition get_outfilename :: "string \<Rightarrow> string \<Rightarrow> string" where
  "get_outfilename inp e =
     (let outf = inp in
      if e \<noteq> [] then
        (let p = (case strrchr outf (CHR ''.'') of
                    None \<Rightarrow> length outf
                  | Some k \<Rightarrow> k)
         in take p outf @ e)
      else outf)"

subsection \<open>\<open>parse_args\<close>\<close>

text \<open>How the flag loop ends: it runs out of tokens or breaks (the tokens left are the
  second component), jumps to the exit label, or calls \<open>exit\<close>.\<close>

datatype loop_end =
    Loop_done parse_state "string list"
  | Goto_exit parse_state
  | Exit_in_loop int "event list"

definition append_cmdline :: "string \<Rightarrow> parse_state \<Rightarrow> parse_state" where
  "append_cmdline item s =
     (case cmdline s of
        None \<Rightarrow> emit [Malloc Cmdline_buf] (s\<lparr> cmdline := Some item \<rparr>)
      | Some old \<Rightarrow>
          emit [Realloc Cmdline_buf] (s\<lparr> cmdline := Some (old @ [CHR 0x0A] @ item) \<rparr>))"

fun parse_loop :: "string \<Rightarrow> parse_state \<Rightarrow> string list \<Rightarrow> loop_end" where
  "parse_loop name s [] = Loop_done s []"
| "parse_loop name s (t # ts) =
     (if t = [] \<or> hd t \<noteq> CHR ''-'' then Loop_done s (t # ts)
      else if length t \<le> 1 then
        Loop_done (s\<lparr> filename := Some ''-'', infile := Some ''-'', rfp := Some Stdin \<rparr>) ts
      else
        (let c = t ! 1; item = drop 2 t in
         if c = CHR ''b'' then parse_loop name (s\<lparr> mrbfile := True \<rparr>) ts
         else if c = CHR ''c'' then parse_loop name (s\<lparr> check_syntax := True \<rparr>) ts
         else if c = CHR ''e'' then
           (let s1 = s\<lparr> filename := Some ''-e'' \<rparr> in
            if item \<noteq> [] then parse_loop name (append_cmdline item s1) ts
            else (case ts of
                    u # us \<Rightarrow> parse_loop name (append_cmdline u s1) us
                  | [] \<Rightarrow>
                      Goto_exit (emit [Printf ''%s: No code specified for -e\<newline>'' [S name]] s1)))
         else if c = CHR ''v'' then
           parse_loop name ((emit [Mrb_show_version] s)\<lparr> verbose := True \<rparr>) ts
         else if c = CHR ''O'' then parse_loop name (s\<lparr> output_flag := True \<rparr>) ts
         else if c = CHR ''o'' then
           parse_loop name
             ((emit [Malloc Outfile_buf] s)
                \<lparr> outfile := Some (Malloced, get_outfilename (drop 2 t) []) \<rparr>) ts
         else if c = CHR ''B'' then
           (let s1 = s\<lparr> ext := C_EXT, initname := Some (drop 2 t) \<rparr> in
            if drop 2 t = [] then
              Goto_exit
                ((emit [Printf ''%s: Function name is not specified.\<newline>'' [S name]] s1)
                   \<lparr> result := kErrNoFunctionName \<rparr>)
            else parse_loop name s1 ts)
         else if c = CHR ''-'' then
           (if drop 2 t = ''version'' then
              Exit_in_loop 0 (trace s @ [Mrb_show_version, Exit_call 0])
            else if drop 2 t = ''verbose'' then parse_loop name (s\<lparr> verbose := True \<rparr>) ts
            else if drop 2 t = ''copyright'' then
              Exit_in_loop 0 (trace s @ [Mrb_show_copyright, Exit_call 0])
            else Goto_exit (s\<lparr> result := kErrUnkownLongOption \<rparr>))
         else Goto_exit (s\<lparr> result := kErrUnkownOption \<rparr>)))"

text \<open>Lines 201 to 216: when neither a stream nor inline text was chosen, the input is
  standard input (no token left) or the file the next token names. \<open>Inl\<close> is the jump to
  the exit label.\<close>

definition select_input ::
  "env \<Rightarrow> string \<Rightarrow> parse_state \<Rightarrow> string list \<Rightarrow> parse_state + (parse_state \<times> string list)" where
  "select_input e name s rest =
     (if rfp s = None \<and> cmdline s = None then
        (case rest of
           [] \<Rightarrow> Inr (s\<lparr> filename := Some ''-'', infile := Some ''-'', rfp := Some Stdin \<rparr>, [])
         | f # others \<Rightarrow>
             (let mode = (if mrbfile s then ''rb'' else ''r'');
                  s1 = s\<lparr> filename := Some f, infile := Some f \<rparr> in
              if fopen_ok e f mode then
                Inr ((emit [Fopen f mode True] s1)\<lparr> rfp := Some (Fp f mode), fname := True \<rparr>,
                     others)
              else
                Inl (emit [Fopen f mode False,
                           Printf ''%s: Cannot open program file. (%s)\<newline>'' [S name, S f]] s1)))
      else Inr (s, rest))"

text \<open>Lines 217 to 219: the tokens left, with the terminating \<open>NULL\<close>, are copied.\<close>

definition copy_argv :: "parse_state \<Rightarrow> string list \<Rightarrow> parse_state" where
  "copy_argv s rest =
     (emit [Realloc Argv_buf] s)\<lparr> argv := Some rest, argc := int (length rest) \<rparr>"

text \<open>Lines 221 to 241; both results go on to the exit label.\<close>

definition select_output :: "env \<Rightarrow> string \<Rightarrow> parse_state \<Rightarrow> parse_state" where
  "select_output e name s =
     (if \<not> check_syntax s then
        (let s1 =
           (if output_flag s \<and> outfile s = None then
              (let to_stdout =
                 (if output_flag s
                  then s\<lparr> infile := Some ''-'', outfile := Some (Same_as_infile, ''-'') \<rparr>
                  else s)
               in case infile s of
                    None \<Rightarrow> to_stdout
                  | Some inp \<Rightarrow>
                      if cmdline s \<noteq> None then to_stdout
                      else if inp = ''-'' then s\<lparr> outfile := Some (Same_as_infile, inp) \<rparr>
                      else
                        (emit [Malloc Outfile_buf] s)
                          \<lparr> outfile := Some (Malloced, get_outfilename inp (ext s)) \<rparr>)
            else s)
         in case outfile s1 of
              None \<Rightarrow> s1
            | Some (origin, path) \<Rightarrow>
                if path = ''-'' then s1\<lparr> wfp := Some Stdout \<rparr>
                else if fopen_ok e path ''wb'' then
                  (emit [Fopen path ''wb'' True] s1)\<lparr> wfp := Some (Fp path ''wb'') \<rparr>
                else
                  (emit [Fopen path ''wb'' False,
                         Printf ''%s: Cannot open output file. (%s)\<newline>'' [S name, S path]] s1)
                    \<lparr> result := - 1 \<rparr>)
      else s)"

text \<open>The exit label: \<open>outfile\<close> is freed unless it is the pointer \<open>infile\<close> holds, and
  the function returns the constant 0; \<open>result\<close> is not read.\<close>

datatype parse_result =
    Exited int "event list"
  | Returned int parse_state

definition exit_label :: "parse_state \<Rightarrow> parse_result" where
  "exit_label s =
     (let s1 = (case outfile s of
                  Some (Malloced, path) \<Rightarrow> emit [Free Outfile_buf] s
                | _ \<Rightarrow> s)
      in Returned 0 s1)"

definition parse_args :: "env \<Rightarrow> string \<Rightarrow> string list \<Rightarrow> parse_result" where
  "parse_args e name av =
     (case parse_loop name parse_init av of
        Exit_in_loop code tr \<Rightarrow> Exited code tr
      | Goto_exit s \<Rightarrow> exit_label s
      | Loop_done s rest \<Rightarrow>
          (case select_input e name s rest of
             Inl s1 \<Rightarrow> exit_label s1
           | Inr (s1, rest1) \<Rightarrow> exit_label (select_output e name (copy_argv s1 rest1))))"

subsection \<open>\<open>usage\<close> and \<open>cleanup\<close>\<close>

definition usage_msg :: "string list" where
  "usage_msg =
     [''switches:'',
      ''-b           load and execute RiteBinary (mrb) file'',
      ''-c           check syntax only'',
      ''-e 'command' one line of script'',
      ''-O           compile'',
      ''-o<outfile>  place the output into <outfile>'',
      ''-B<symbol>   binary <symbol> output in C language format'',
      ''-v           print version number, then run in verbose mode'',
      ''--verbose    run in verbose mode'',
      ''--version    print the version'',
      ''--copyright  print the copyright'']"

definition usage :: "string \<Rightarrow> event list" where
  "usage name =
     Printf ''Usage: %s [switches] programfile\<newline>'' [S name]
       # map (\<lambda>m. Printf ''  %s\<newline>'' [S m]) usage_msg"

definition cleanup :: "('a args_scheme) \<Rightarrow> event list" where
  "cleanup a =
     (case rfp a of
        Some f \<Rightarrow> if f \<noteq> Stdin then [Fclose f] else []
      | None \<Rightarrow> [])
     @ (case wfp a of Some f \<Rightarrow> [Fclose f] | None \<Rightarrow> [])
     @ (if cmdline a \<noteq> None \<and> \<not> fname a then [Free Cmdline_buf] else [])
     @ (if argv a \<noteq> None then [Free Argv_buf] else [])
     @ [Mrb_close]"

subsection \<open>\<open>showcallinfo\<close>\<close>

text \<open>One iteration of the loop over the call-info records, for index \<open>i\<close>.\<close>

definition showcallinfo_frame :: "env \<Rightarrow> int \<Rightarrow> int \<Rightarrow> event list" where
  "showcallinfo_frame e ciidx i =
     (let ci = cibase e i in
      if cfunc_p (ci_proc ci) then []
      else
        (let irep = body_irep (ci_proc ci);
             file_name = (case irep_filename irep of None \<Rightarrow> ''(unknown)'' | Some f \<Rightarrow> f);
             line =
               (case irep_lines irep of
                  None \<Rightarrow> - 1
                | Some lines \<Rightarrow>
                    (let pc = (if i + 1 \<le> ciidx then ci_pc (cibase e (i + 1))
                               else exc_lastpc e)
                     in if iseq irep \<le> pc \<and> pc < iseq irep + ilen irep
                        then lines (pc - iseq irep - 1) else - 1))
         in if line = - 1 then []
            else
              (let sep = (if ci_target_class ci = proc_target_class (ci_proc ci)
                          then ''.'' else ''#'')
               in case sym2name e (ci_mid ci) of
                    Some method \<Rightarrow>
                      (case class_name e (proc_target_class (ci_proc ci)) of
                         Some cn \<Rightarrow>
                           [Printf (CHR 0x09 # ''[%d] %s:%d:in %s%s%s\<newline>'')
                              [D i, S file_name, D line, S cn, S sep, S method]]
                       | None \<Rightarrow>
                           [Printf (CHR 0x09 # ''[%d] %s:%d:in %s\<newline>'')
                              [D i, S file_name, D line, S method]])
                  | None \<Rightarrow>
                      [Printf (CHR 0x09 # ''[%d] %s:%d\<newline>'') [D i, S file_name, D line]])))"

function showcallinfo_loop :: "env \<Rightarrow> int \<Rightarrow> int \<Rightarrow> event list" where
  "showcallinfo_loop e ciidx i =
     (if i \<ge> 0 then showcallinfo_frame e ciidx i @ showcallinfo_loop e ciidx (i - 1)
      else [])"
  by pat_completeness auto
termination
  by (relation "measure (\<lambda>(e, ciidx, i). nat (i + 1))") auto

definition showcallinfo :: "env \<Rightarrow> event list" where
  "showcallinfo e =
     Printf ''trace:\<newline>'' []
       # (let ciidx = (if exc_ciidx e \<ge> ci_count e then 10 else exc_ciidx e)
          in showcallinfo_loop e ciidx ciidx)"

subsection \<open>\<open>main\<close>\<close>

text \<open>The last two statements of \<open>main\<close>.\<close>

definition finish :: "('a args_scheme) \<Rightarrow> int \<Rightarrow> event list \<Rightarrow> int \<times> event list" where
  "finish a n evs = (if n = 0 then EXIT_SUCCESS else EXIT_FAILURE, evs @ cleanup a)"

text \<open>Lines 367 to 381. \<open>run_exc\<close> is what \<open>mrb->exc\<close> holds after \<open>mrb_run\<close>.\<close>

definition dispatch_bytecode :: "env \<Rightarrow> ('a args_scheme) \<Rightarrow> int \<times> event list" where
  "dispatch_bytecode e a =
     (let n = read_irep_ret e;
          evs = [Mrb_read_irep_file (rfp a)]
      in if n < 0 then
           finish a n (evs @ [Fprintf_stderr ''failed to load mrb file: %s\<newline>''
                                [str_arg (cmdline a)]])
         else if \<not> check_syntax a then
           (if run_exc e then finish a (- 1) (evs @ [Mrb_run n] @ showcallinfo e @ [P_exc])
            else finish a 0 (evs @ [Mrb_run n]))
         else finish a n evs)"

text \<open>Lines 412 to 426. \<open>load_exc\<close> is what \<open>mrb->exc\<close> holds at line 413.\<close>

definition after_dispatch ::
  "env \<Rightarrow> ('a args_scheme) \<Rightarrow> int \<Rightarrow> event list \<Rightarrow> int \<times> event list" where
  "after_dispatch e a n evs =
     (let evs1 = evs @ [Mrbc_context_free] in
      if load_exc e then
        finish a (- 1)
          (evs1 @ (if \<not> mrb_undef_p (load_v e) then showcallinfo e @ [P_exc] else []))
      else if check_syntax a then finish a n (evs1 @ [Printf ''Syntax OK\<newline>'' []])
      else finish a n evs1)"

text \<open>Lines 382 to 411. The loader's events carry the context's \<open>dump_result\<close> and
  \<open>no_exec\<close>.\<close>

definition dispatch_source :: "env \<Rightarrow> ('a args_scheme) \<Rightarrow> int \<Rightarrow> int \<times> event list" where
  "dispatch_source e a n =
     (let dump_result = verbose a;
          no_exec = (check_syntax a \<or> wfp a \<noteq> None);
          evs = [Mrbc_context_new, Mrbc_filename (filename a)]
                @ (case rfp a of
                     Some f \<Rightarrow> [Mrb_load_file_cxt f dump_result no_exec]
                   | None \<Rightarrow> [Mrb_load_string_cxt (cmdline a) dump_result no_exec]);
          v = load_v e
      in case wfp a of
           Some w \<Rightarrow>
             if \<not> check_syntax a then
               (if mrb_undef_p v \<or> mrb_fixnum v < 0 then (EXIT_FAILURE, evs @ cleanup a)
                else
                  (case initname a of
                     Some symbol \<Rightarrow>
                       after_dispatch e a (bdump_ret e) (evs @ [Mrb_bdump_irep n w symbol])
                   | None \<Rightarrow> after_dispatch e a (dump_ret e) (evs @ [Mrb_dump_irep n w])))
             else after_dispatch e a n evs
         | None \<Rightarrow> after_dispatch e a n evs)"

text \<open>Lines 361 to 365.\<close>

definition define_ARGV :: "('a args_scheme) \<Rightarrow> event list" where
  "define_ARGV a =
     [Mrb_define_global_const ''ARGV''
        (take (nat (argc a)) (case argv a of None \<Rightarrow> [] | Some vec \<Rightarrow> vec))]"

text \<open>Lines 340 to 426, from the value \<open>n\<close> that \<open>parse_args\<close> returned.\<close>

definition after_parse ::
  "env \<Rightarrow> string \<Rightarrow> int \<Rightarrow> ('a args_scheme) \<Rightarrow> int \<times> event list" where
  "after_parse e name n a =
     (if n < 0 \<or> (cmdline a = None \<and> rfp a = None) then (n, cleanup a @ usage name)
      else
        (let evs1 = (if wfp a = None then [Mrb_init_libs] else []);
             evs2 = (if wfp a = None \<and> rfp a = Some Stdin then [Fstat_stdin] else [])
         in if wfp a = None \<and> rfp a = Some Stdin
               \<and> \<not> stdin_is_fifo e \<and> stdin_size e = 0
            then (mirb_ret e, evs1 @ evs2 @ [Mirb] @ cleanup a)
            else
              (let (status, evs3) =
                 (if mrbfile a then dispatch_bytecode e a else dispatch_source e a n)
               in (status, evs1 @ evs2 @ define_ARGV a @ evs3))))"

text \<open>The process: the status it ends with and the events up to there.\<close>

definition main :: "env \<Rightarrow> string \<Rightarrow> string list \<Rightarrow> int \<times> event list" where
  "main e name av =
     (if \<not> open0_ok e then
        (EXIT_FAILURE,
         [Mrb_open0, Fprintf_stderr ''Invalid mrb_state, exiting mruby\<newline>'' []])
      else
        (case parse_args e name av of
           Exited code tr \<Rightarrow> (code, Mrb_open0 # tr)
         | Returned n s \<Rightarrow>
             (let (status, evs) = after_parse e name n s
              in (status, Mrb_open0 # trace s @ evs))))"

subsection \<open>A concrete environment\<close>

text \<open>An engine on which every call succeeds and no exception is raised; the examples
  below vary it field by field.\<close>

definition quiet_frame :: mrb_callinfo where
  "quiet_frame =
     \<lparr> ci_proc = \<lparr> cfunc_p = True,
                    body_irep = \<lparr> irep_filename = None, irep_lines = None, iseq = 0, ilen = 0 \<rparr>,
                    proc_target_class = 0 \<rparr>,
       ci_pc = 0, ci_target_class = 0, ci_mid = 0 \<rparr>"

definition quiet_engine :: env where
  "quiet_engine =
     \<lparr> open0_ok = True, fopen_ok = (\<lambda>path mode. True), stdin_is_fifo = True, stdin_size = 0,
       mirb_ret = 0, read_irep_ret = 0, run_exc = False,
       load_v = \<lparr> mrb_undef_p = False, mrb_fixnum = 0 \<rparr>, load_exc = False,
       bdump_ret = 0, dump_ret = 0, cibase = (\<lambda>i. quiet_frame), ci_count = 32,
       exc_ciidx = 0, exc_lastpc = 0, sym2name = (\<lambda>m. None), class_name = (\<lambda>c. None) \<rparr>"

text \<open>An engine on which the script raises: a native frame on top of a method frame on top
  of the top-level frame.\<close>

definition toplevel_frame :: mrb_callinfo where
  "toplevel_frame =
     \<lparr> ci_proc = \<lparr> cfunc_p = False,
                    body_irep = \<lparr> irep_filename = Some ''boom.rb'',
                                  irep_lines = Some (\<lambda>i. 12), iseq = 100, ilen = 10 \<rparr>,
                    proc_target_class = 0 \<rparr>,
       ci_pc = 0, ci_target_class = 0, ci_mid = 0 \<rparr>"

definition method_frame :: mrb_callinfo where
  "method_frame =
     \<lparr> ci_proc = \<lparr> cfunc_p = False,
                    body_irep = \<lparr> irep_filename = Some ''boom.rb'',
                                  irep_lines = Some (\<lambda>i. 7), iseq = 200, ilen = 10 \<rparr>,
                    proc_target_class = 0 \<rparr>,
       ci_pc = 103, ci_target_class = 0, ci_mid = 1 \<rparr>"

definition raising_engine :: env where
  "raising_engine =
     quiet_engine\<lparr> load_exc := True,
                   cibase := (\<lambda>i. if i = 0 then toplevel_frame
                                   else if i = 1 then method_frame
                                   else quiet_frame\<lparr> ci_pc := 205 \<rparr>),
                   exc_ciidx := 2, exc_lastpc := 0,
                   sym2name := (\<lambda>m. if m = 1 then Some ''explode'' else None),
                   class_name := (\<lambda>c. Some ''Object'') \<rparr>"

text \<open>The events the flag loop can add to the trace.\<close>

definition loop_events :: "event set" where
  "loop_events =
     {Mrb_show_version, Malloc Cmdline_buf, Realloc Cmdline_buf, Malloc Outfile_buf}"

subsection \<open>Notions of the specification\<close>

text \<open>A flag the loop consumes and goes on from: an inline command, with the code in
  the same token (\<open>-ecode\<close>) or in the next one (\<open>-e code\<close>), or one of the other
  flags (\<open>-b\<close>, \<open>-c\<close>, \<open>-v\<close>, \<open>-O\<close>, \<open>-o\<close>, \<open>-B\<close> with a symbol,
  \<open>--verbose\<close>).\<close>

datatype flag_occurrence = Inline_attached string | Inline_separate string | Other_flag string

definition steps_over :: "string \<Rightarrow> bool" where
  "steps_over t =
     (case t of
        c0 # c # item \<Rightarrow>
          c0 = CHR ''-''
          \<and> (c \<in> {CHR ''b'', CHR ''c'', CHR ''v'', CHR ''O'', CHR ''o''}
               \<or> (c = CHR ''B'' \<and> item \<noteq> [])
               \<or> (c = CHR ''-'' \<and> item = ''verbose''))
      | _ \<Rightarrow> False)"

fun occurrence_tokens :: "flag_occurrence \<Rightarrow> string list" where
  "occurrence_tokens (Inline_attached code) = [''-e'' @ code]"
| "occurrence_tokens (Inline_separate code) = [''-e'', code]"
| "occurrence_tokens (Other_flag t) = [t]"

text \<open>\<open>-e\<close> with nothing attached is the other form.\<close>

fun occurrence_ok :: "flag_occurrence \<Rightarrow> bool" where
  "occurrence_ok (Inline_attached code) = (code \<noteq> [])"
| "occurrence_ok (Inline_separate code) = True"
| "occurrence_ok (Other_flag t) = steps_over t"

text \<open>The code fragments of the inline commands, in the order given.\<close>

fun fragments :: "flag_occurrence list \<Rightarrow> string list" where
  "fragments [] = []"
| "fragments (Inline_attached code # xs) = code # fragments xs"
| "fragments (Inline_separate code # xs) = code # fragments xs"
| "fragments (Other_flag t # xs) = fragments xs"

text \<open>The fragments, one newline between each two.\<close>

fun join_newline :: "string list \<Rightarrow> string" where
  "join_newline [] = []"
| "join_newline [c] = c"
| "join_newline (c # d # cs) = c @ [CHR 0x0A] @ join_newline (d # cs)"

text \<open>What \<open>cmdline\<close> holds after further fragments have been appended one by one.\<close>

fun accumulate :: "string option \<Rightarrow> string list \<Rightarrow> string option" where
  "accumulate acc [] = acc"
| "accumulate acc (c # cs) =
     accumulate (Some (case acc of None \<Rightarrow> c | Some old \<Rightarrow> old @ [CHR 0x0A] @ c)) cs"




text \<open>Following the specification's words on the trace (section 4.4): the line number of
  a frame comes from the debug line table of its bytecode unit, at the program counter
  saved in the next more recent record (for the most recent frame, at the one stored in the
  exception); it is -1 when the table is missing or the counter is not in the unit's code.
  A frame that has a line is reported as \<open>[index] filename:line:in Class.method\<close> or
  \<open>Class#method\<close> (the dot when the call's target class is the defining class), without
  the class when the class has no name, or as \<open>[index] filename:line\<close> when there is no
  method name.\<close>

definition spec_frame_line :: "env \<Rightarrow> int \<Rightarrow> int \<Rightarrow> int" where
  "spec_frame_line e ciidx i =
     (let irep = body_irep (ci_proc (cibase e i));
          pc = (if i < ciidx then ci_pc (cibase e (i + 1)) else exc_lastpc e)
      in case irep_lines irep of
           None \<Rightarrow> - 1
         | Some table \<Rightarrow>
             if iseq irep \<le> pc \<and> pc < iseq irep + ilen irep then table (pc - iseq irep - 1)
             else - 1)"

definition spec_frame_report :: "env \<Rightarrow> int \<Rightarrow> int \<Rightarrow> event" where
  "spec_frame_report e i line =
     (let ci = cibase e i;
          file_name = (case irep_filename (body_irep (ci_proc ci)) of
                         None \<Rightarrow> ''(unknown)'' | Some f \<Rightarrow> f)
      in case sym2name e (ci_mid ci) of
           None \<Rightarrow> Printf (CHR 0x09 # ''[%d] %s:%d\<newline>'') [D i, S file_name, D line]
         | Some method \<Rightarrow>
             (case class_name e (proc_target_class (ci_proc ci)) of
                None \<Rightarrow>
                  Printf (CHR 0x09 # ''[%d] %s:%d:in %s\<newline>'')
                    [D i, S file_name, D line, S method]
              | Some cn \<Rightarrow>
                  Printf (CHR 0x09 # ''[%d] %s:%d:in %s%s%s\<newline>'')
                    [D i, S file_name, D line, S cn,
                     S (if ci_target_class ci = proc_target_class (ci_proc ci)
                        then ''.'' else ''#''),
                     S method]))"

text \<open>A flag token starts with \<open>-\<close> and is longer than that. In a run of flags, a bare
  \<open>-e\<close> takes the token after it as its operand.\<close>

definition is_flag :: "string \<Rightarrow> bool" where
  "is_flag t = (t \<noteq> [] \<and> hd t = CHR ''-'' \<and> 1 < length t)"



section \<open>The flag loop, token by token\<close>

text \<open>One equation for each way through the body of the loop, and an induction rule that
  follows them.\<close>

lemma step_nonflag:
  "t = [] \<or> hd t \<noteq> CHR ''-'' \<Longrightarrow> parse_loop name s (t # ts) = Loop_done s (t # ts)"
  by simp

lemma step_dash:
  "parse_loop name s (''-'' # ts)
     = Loop_done (s\<lparr> filename := Some ''-'', infile := Some ''-'', rfp := Some Stdin \<rparr>) ts"
  by simp

lemma step_b:
  "parse_loop name s ((CHR ''-'' # CHR ''b'' # item) # ts) = parse_loop name (s\<lparr> mrbfile := True \<rparr>) ts"
  by (simp add: Let_def)

lemma step_c:
  "parse_loop name s ((CHR ''-'' # CHR ''c'' # item) # ts)
     = parse_loop name (s\<lparr> check_syntax := True \<rparr>) ts"
  by (simp add: Let_def)

lemma step_e_attached:
  "item \<noteq> [] \<Longrightarrow> parse_loop name s ((CHR ''-'' # CHR ''e'' # item) # ts)
     = parse_loop name (append_cmdline item (s\<lparr> filename := Some ''-e'' \<rparr>)) ts"
  by (simp add: Let_def)

lemma step_e_separate:
  "parse_loop name s (''-e'' # u # us)
     = parse_loop name (append_cmdline u (s\<lparr> filename := Some ''-e'' \<rparr>)) us"
  by (simp add: Let_def)

lemma step_e_missing:
  "parse_loop name s [''-e'']
     = Goto_exit (emit [Printf ''%s: No code specified for -e\<newline>'' [S name]]
                    (s\<lparr> filename := Some ''-e'' \<rparr>))"
  by (simp add: Let_def)

lemma step_v:
  "parse_loop name s ((CHR ''-'' # CHR ''v'' # item) # ts)
     = parse_loop name ((emit [Mrb_show_version] s)\<lparr> verbose := True \<rparr>) ts"
  by (simp add: Let_def)

lemma step_O:
  "parse_loop name s ((CHR ''-'' # CHR ''O'' # item) # ts)
     = parse_loop name (s\<lparr> output_flag := True \<rparr>) ts"
  by (simp add: Let_def)

lemma step_o:
  "parse_loop name s ((CHR ''-'' # CHR ''o'' # item) # ts)
     = parse_loop name ((emit [Malloc Outfile_buf] s)
         \<lparr> outfile := Some (Malloced, get_outfilename item []) \<rparr>) ts"
  by (simp add: Let_def)

lemma step_B_empty:
  "parse_loop name s (''-B'' # ts)
     = Goto_exit ((emit [Printf ''%s: Function name is not specified.\<newline>'' [S name]]
                     (s\<lparr> ext := C_EXT, initname := Some [] \<rparr>))
                    \<lparr> result := kErrNoFunctionName \<rparr>)"
  by (simp add: Let_def)

lemma step_B:
  "item \<noteq> [] \<Longrightarrow> parse_loop name s ((CHR ''-'' # CHR ''B'' # item) # ts)
     = parse_loop name (s\<lparr> ext := C_EXT, initname := Some item \<rparr>) ts"
  by (simp add: Let_def)

lemma step_version:
  "parse_loop name s (''--version'' # ts)
     = Exit_in_loop 0 (trace s @ [Mrb_show_version, Exit_call 0])"
  by (simp add: Let_def)

lemma step_verbose:
  "parse_loop name s (''--verbose'' # ts) = parse_loop name (s\<lparr> verbose := True \<rparr>) ts"
  by (simp add: Let_def)

lemma step_copyright:
  "parse_loop name s (''--copyright'' # ts)
     = Exit_in_loop 0 (trace s @ [Mrb_show_copyright, Exit_call 0])"
  by (simp add: Let_def)

lemma step_long_unknown:
  "item \<noteq> ''version'' \<Longrightarrow> item \<noteq> ''verbose'' \<Longrightarrow> item \<noteq> ''copyright''
     \<Longrightarrow> parse_loop name s ((CHR ''-'' # CHR ''-'' # item) # ts)
       = Goto_exit (s\<lparr> result := kErrUnkownLongOption \<rparr>)"
  by (simp add: Let_def)

lemma step_unknown:
  "c \<notin> {CHR ''b'', CHR ''c'', CHR ''e'', CHR ''v'', CHR ''O'', CHR ''o'', CHR ''B'', CHR ''-''}
     \<Longrightarrow> parse_loop name s ((CHR ''-'' # c # item) # ts)
       = Goto_exit (s\<lparr> result := kErrUnkownOption \<rparr>)"
  by (simp add: Let_def)

lemma flag_shape:
  "\<not> (t = [] \<or> hd t \<noteq> CHR ''-'') \<Longrightarrow> \<not> length t \<le> 1 \<Longrightarrow> \<exists>c item. t = CHR ''-'' # c # item"
  by (cases t; cases "tl t") auto

lemma parse_loop_shape_induct
  [case_names Nil Nonflag Dash b c e_attached e_separate e_missing v O o B_empty B
     version verbose copyright long_unknown unknown]:
  assumes "\<And>s. P s []"
    and "\<And>s t ts. t = [] \<or> hd t \<noteq> CHR ''-'' \<Longrightarrow> P s (t # ts)"
    and "\<And>s ts. P s (''-'' # ts)"
    and "\<And>s item ts. P (s\<lparr> mrbfile := True \<rparr>) ts \<Longrightarrow> P s ((CHR ''-'' # CHR ''b'' # item) # ts)"
    and "\<And>s item ts. P (s\<lparr> check_syntax := True \<rparr>) ts
           \<Longrightarrow> P s ((CHR ''-'' # CHR ''c'' # item) # ts)"
    and "\<And>s item ts. item \<noteq> []
           \<Longrightarrow> P (append_cmdline item (s\<lparr> filename := Some ''-e'' \<rparr>)) ts
           \<Longrightarrow> P s ((CHR ''-'' # CHR ''e'' # item) # ts)"
    and "\<And>s u us. P (append_cmdline u (s\<lparr> filename := Some ''-e'' \<rparr>)) us
           \<Longrightarrow> P s (''-e'' # u # us)"
    and "\<And>s. P s [''-e'']"
    and "\<And>s item ts. P ((emit [Mrb_show_version] s)\<lparr> verbose := True \<rparr>) ts
           \<Longrightarrow> P s ((CHR ''-'' # CHR ''v'' # item) # ts)"
    and "\<And>s item ts. P (s\<lparr> output_flag := True \<rparr>) ts
           \<Longrightarrow> P s ((CHR ''-'' # CHR ''O'' # item) # ts)"
    and "\<And>s item ts.
           P ((emit [Malloc Outfile_buf] s)
                \<lparr> outfile := Some (Malloced, get_outfilename item []) \<rparr>) ts
           \<Longrightarrow> P s ((CHR ''-'' # CHR ''o'' # item) # ts)"
    and "\<And>s ts. P s (''-B'' # ts)"
    and "\<And>s item ts. item \<noteq> [] \<Longrightarrow> P (s\<lparr> ext := C_EXT, initname := Some item \<rparr>) ts
           \<Longrightarrow> P s ((CHR ''-'' # CHR ''B'' # item) # ts)"
    and "\<And>s ts. P s (''--version'' # ts)"
    and "\<And>s ts. P (s\<lparr> verbose := True \<rparr>) ts \<Longrightarrow> P s (''--verbose'' # ts)"
    and "\<And>s ts. P s (''--copyright'' # ts)"
    and "\<And>s item ts. item \<noteq> ''version'' \<Longrightarrow> item \<noteq> ''verbose'' \<Longrightarrow> item \<noteq> ''copyright''
           \<Longrightarrow> P s ((CHR ''-'' # CHR ''-'' # item) # ts)"
    and "\<And>s c item ts.
           c \<notin> {CHR ''b'', CHR ''c'', CHR ''e'', CHR ''v'', CHR ''O'', CHR ''o'', CHR ''B'', CHR ''-''}
           \<Longrightarrow> P s ((CHR ''-'' # c # item) # ts)"
  shows "P s av"
proof (induction "length av" arbitrary: s av rule: less_induct)
  case less
  show ?case
  proof (cases av)
    case Nil
    then show ?thesis using assms(1) by simp
  next
    case (Cons t ts)
    have IH: "\<And>s'. P s' ts" using less Cons by simp
    show ?thesis
    proof (cases "t = [] \<or> hd t \<noteq> CHR ''-''")
      case True
      then show ?thesis using assms(2) Cons by simp
    next
      case notbreak: False
      show ?thesis
      proof (cases "length t \<le> 1")
        case True
        with notbreak have "t = ''-''" by (cases t) auto
        then show ?thesis using assms(3) Cons by simp
      next
        case False
        with notbreak obtain c item where t: "t = CHR ''-'' # c # item"
          using flag_shape by blast
        consider (b) "c = CHR ''b''" | (c) "c = CHR ''c''" | (e) "c = CHR ''e''"
          | (v) "c = CHR ''v''" | (O) "c = CHR ''O''" | (o) "c = CHR ''o''"
          | (B) "c = CHR ''B''" | (dash) "c = CHR ''-''"
          | (other) "c \<notin> {CHR ''b'', CHR ''c'', CHR ''e'', CHR ''v'', CHR ''O'', CHR ''o'',
                           CHR ''B'', CHR ''-''}"
          by auto
        then show ?thesis
        proof cases
          case b
          then show ?thesis using assms(4)[OF IH] Cons t by simp
        next
          case c
          then show ?thesis using assms(5)[OF IH] Cons t by simp
        next
          case e
          show ?thesis
          proof (cases "item = []")
            case False
            then show ?thesis using assms(6)[OF False IH] Cons t e by simp
          next
            case True
            show ?thesis
            proof (cases ts)
              case Nil
              then show ?thesis using assms(8) Cons t e True by simp
            next
              case (Cons u us)
              have "P s' us" for s' using less(1)[of us s'] Cons \<open>av = t # ts\<close> by simp
              then show ?thesis using assms(7) Cons \<open>av = t # ts\<close> t e True by simp
            qed
          qed
        next
          case v
          then show ?thesis using assms(9)[OF IH] Cons t by simp
        next
          case O
          then show ?thesis using assms(10)[OF IH] Cons t by simp
        next
          case o
          then show ?thesis using assms(11)[OF IH] Cons t by simp
        next
          case B
          show ?thesis
          proof (cases "item = []")
            case True
            then show ?thesis using assms(12) Cons t B by simp
          next
            case False
            then show ?thesis using assms(13)[OF False IH] Cons t B by simp
          qed
        next
          case dash
          consider "item = ''version''" | "item = ''verbose''" | "item = ''copyright''"
            | "item \<noteq> ''version'' \<and> item \<noteq> ''verbose'' \<and> item \<noteq> ''copyright''"
            by blast
          then show ?thesis
          proof cases
            case 1
            then show ?thesis using assms(14) Cons t dash by simp
          next
            case 2
            then show ?thesis using assms(15)[OF IH] Cons t dash by simp
          next
            case 3
            then show ?thesis using assms(16) Cons t dash by simp
          next
            case 4
            then show ?thesis using assms(17) Cons t dash by simp
          qed
        next
          case other
          then show ?thesis using assms(18) Cons t by simp
        qed
      qed
    qed
  qed
qed


lemmas parse_loop_steps =
  step_nonflag step_dash step_b step_c step_e_attached step_e_separate step_e_missing
  step_v step_O step_o step_B_empty step_B step_version step_verbose step_copyright
  step_long_unknown step_unknown

declare parse_loop.simps(2) [simp del]

text \<open>Fields of the initial state and of the state after \<open>append_cmdline\<close>.\<close>

lemma parse_init_fields:
  "rfp parse_init = None" "wfp parse_init = None" "cmdline parse_init = None"
  "check_syntax parse_init = False" "mrbfile parse_init = False" "verbose parse_init = False"
  "output_flag parse_init = False" "outfile parse_init = None" "fname parse_init = False"
  "trace parse_init = []" "result parse_init = 0" "ext parse_init = RITEBIN_EXT"
  "initname parse_init = None" "argv parse_init = None" "argc parse_init = 0"
  "infile parse_init = None" "filename parse_init = None"
  by (simp_all add: parse_init_def args_zero_def parse_state.defs args.defs)

lemma append_cmdline_others:
  "rfp (append_cmdline c s) = rfp s" "wfp (append_cmdline c s) = wfp s"
  "check_syntax (append_cmdline c s) = check_syntax s"
  "mrbfile (append_cmdline c s) = mrbfile s" "verbose (append_cmdline c s) = verbose s"
  "output_flag (append_cmdline c s) = output_flag s" "outfile (append_cmdline c s) = outfile s"
  "result (append_cmdline c s) = result s" "filename (append_cmdline c s) = filename s"
  "argv (append_cmdline c s) = argv s" "argc (append_cmdline c s) = argc s"
  "fname (append_cmdline c s) = fname s" "initname (append_cmdline c s) = initname s"
  "ext (append_cmdline c s) = ext s" "infile (append_cmdline c s) = infile s"
  by (simp_all add: append_cmdline_def emit_def split: option.splits)

text \<open>Tokens the loop has consumed as flags do not change what it does with the
  tokens after them; the loop adds no event other than those of \<open>loop_events\<close>.\<close>

lemma parse_loop_append:
  "parse_loop name s pre = Loop_done s' [] \<Longrightarrow> rfp s' = None
     \<Longrightarrow> parse_loop name s (pre @ ts) = parse_loop name s' ts"
  by (induction s pre rule: parse_loop_shape_induct) (auto simp: parse_loop_steps)

lemma parse_loop_trace:
  "parse_loop name s av = Loop_done s' rest \<Longrightarrow> set (trace s') \<subseteq> set (trace s) \<union> loop_events"
proof (induction s av rule: parse_loop_shape_induct)
  case (e_attached s item ts)
  then show ?case by (auto simp: parse_loop_steps append_cmdline_def emit_def loop_events_def split: option.splits)
next
  case (e_separate s u us)
  then show ?case by (auto simp: parse_loop_steps append_cmdline_def emit_def loop_events_def split: option.splits)
qed (auto simp: parse_loop_steps emit_def loop_events_def)

text \<open>Joining fragments.\<close>

lemma join_newline_append_head:
  "join_newline ((a @ b) # cs) = a @ join_newline (b # cs)"
  by (cases cs) simp_all







section \<open>From \<open>parse_args\<close> to the dispatch\<close>

text \<open>What the steps after the loop keep, and the shape of a run that reaches the
  dispatch.\<close>

lemma parse_args_ret: "parse_args e name av = Returned n s \<Longrightarrow> n = 0"
  by (auto simp: parse_args_def exit_label_def Let_def
           split: loop_end.splits sum.splits prod.splits)

lemma exit_label_keeps:
  "\<exists>s'. exit_label s = Returned 0 s'
     \<and> rfp s' = rfp s \<and> wfp s' = wfp s \<and> cmdline s' = cmdline s \<and> argv s' = argv s
     \<and> argc s' = argc s \<and> filename s' = filename s \<and> mrbfile s' = mrbfile s
     \<and> check_syntax s' = check_syntax s \<and> verbose s' = verbose s \<and> fname s' = fname s
     \<and> initname s' = initname s"
  by (simp add: exit_label_def emit_def split: option.splits prod.splits ptr_origin.splits)

lemma select_output_keeps:
  "rfp (select_output e name s) = rfp s \<and> cmdline (select_output e name s) = cmdline s
   \<and> argv (select_output e name s) = argv s \<and> argc (select_output e name s) = argc s
   \<and> filename (select_output e name s) = filename s
   \<and> mrbfile (select_output e name s) = mrbfile s
   \<and> check_syntax (select_output e name s) = check_syntax s
   \<and> verbose (select_output e name s) = verbose s \<and> fname (select_output e name s) = fname s
   \<and> initname (select_output e name s) = initname s"
  by (simp add: select_output_def emit_def Let_def split: option.splits prod.splits)

lemma parse_args_after_loop:
  assumes "parse_loop name parse_init av = Loop_done s rest"
    and "select_input e name s rest = Inr (s1, rest1)"
  shows "\<exists>s2. parse_args e name av = Returned 0 s2
           \<and> argv s2 = Some rest1 \<and> argc s2 = int (length rest1)
           \<and> rfp s2 = rfp s1 \<and> cmdline s2 = cmdline s1 \<and> filename s2 = filename s1
           \<and> mrbfile s2 = mrbfile s1 \<and> check_syntax s2 = check_syntax s1"
proof -
  let ?o = "select_output e name (copy_argv s1 rest1)"
  have pa: "parse_args e name av = exit_label ?o"
    using assms by (simp add: parse_args_def)
  from exit_label_keeps [of ?o] obtain s2 where
    s2: "exit_label ?o = Returned 0 s2" "rfp s2 = rfp ?o" "cmdline s2 = cmdline ?o"
      "argv s2 = argv ?o" "argc s2 = argc ?o" "filename s2 = filename ?o"
      "mrbfile s2 = mrbfile ?o" "check_syntax s2 = check_syntax ?o"
    by blast
  show ?thesis
    using pa s2 select_output_keeps [of e name "copy_argv s1 rest1"]
    by (simp add: copy_argv_def emit_def)
qed

lemma main_batch:
  assumes "open0_ok e" and "parse_args e name av = Returned n s"
    and "cmdline s \<noteq> None \<or> rfp s \<noteq> None"
    and "rfp s = Some Stdin \<longrightarrow> wfp s \<noteq> None \<or> stdin_is_fifo e \<or> stdin_size e \<noteq> 0"
  shows "\<exists>before. main e name av
           = (fst (if mrbfile s then dispatch_bytecode e s else dispatch_source e s 0),
              before @ define_ARGV s
                @ snd (if mrbfile s then dispatch_bytecode e s else dispatch_source e s 0))"
proof -
  have n: "n = 0" using parse_args_ret [OF assms(2)] .
  let ?d = "if mrbfile s then dispatch_bytecode e s else dispatch_source e s 0"
  let ?b = "Mrb_open0 # trace s @ (if wfp s = None then [Mrb_init_libs] else [])
             @ (if wfp s = None \<and> rfp s = Some Stdin then [Fstat_stdin] else [])"
  have "main e name av = (fst ?d, ?b @ define_ARGV s @ snd ?d)"
    using assms n by (auto simp: main_def after_parse_def Let_def split: prod.splits)
  then show ?thesis by blast
qed



section \<open>The value \<open>parse_args\<close> returns\<close>

text \<open>
  C3. Whenever \<open>parse_args\<close> returns to its caller it returns 0, and it does return
  unless the loop called \<open>exit\<close>: every other path, the ones that set the local error code
  \<open>result\<close> and the ones that fail to open a file included, ends at the exit label, whose
  \<open>return\<close> statement has the constant 0 as its operand.
\<close>

theorem parse_args_returns_zero:
  "(parse_args e name av = Returned n s \<longrightarrow> n = 0)
   \<and> ((\<forall>code tr. parse_loop name parse_init av \<noteq> Exit_in_loop code tr)
        \<longrightarrow> (\<exists>s'. parse_args e name av = Returned 0 s'))"
proof
  show "parse_args e name av = Returned n s \<longrightarrow> n = 0"
    using parse_args_ret by blast
next
  show "(\<forall>code tr. parse_loop name parse_init av \<noteq> Exit_in_loop code tr)
          \<longrightarrow> (\<exists>s'. parse_args e name av = Returned 0 s')"
  proof
    assume no_exit: "\<forall>code tr. parse_loop name parse_init av \<noteq> Exit_in_loop code tr"
    have ex: "\<exists>s'. exit_label x = Returned 0 s'" for x
      using exit_label_keeps [of x] by blast
    show "\<exists>s'. parse_args e name av = Returned 0 s'"
    proof (cases "parse_loop name parse_init av")
      case (Loop_done s1 rest)
      then show ?thesis
        using ex by (cases "select_input e name s1 rest") (auto simp: parse_args_def)
    next
      case (Goto_exit s1)
      then show ?thesis using ex by (simp add: parse_args_def)
    next
      case (Exit_in_loop code tr)
      with no_exit show ?thesis by blast
    qed
  qed
qed

theorem parse_args_returns_zero_witness:
  "(\<forall>code tr. parse_loop ''mruby'' parse_init [''-B''] \<noteq> Exit_in_loop code tr)
   \<and> (\<exists>s. parse_args quiet_engine ''mruby'' [''-B''] = Returned 0 s
          \<and> result s = kErrNoFunctionName)"
proof -
  have l: "\<forall>code tr. parse_loop ''mruby'' parse_init [''-B''] \<noteq> Exit_in_loop code tr"
    by (simp add: step_B_empty)
  with parse_args_returns_zero [of quiet_engine "''mruby''" "[''-B'']"]
  obtain s where r: "parse_args quiet_engine ''mruby'' [''-B''] = Returned 0 s"
    by blast
  have "\<exists>n s'. parse_args quiet_engine ''mruby'' [''-B''] = Returned n s'
              \<and> result s' = kErrNoFunctionName"
    by (simp add: parse_args_def step_B_empty exit_label_def emit_def parse_init_def
                  parse_state.defs args.defs)
  with r have "result s = kErrNoFunctionName" by auto
  with l r show ?thesis by blast
qed

text \<open>The error paths one by one: the error code is in \<open>result\<close>, or the stream is
  missing, and the value returned is 0 all the same.\<close>

lemma unknown_long_option_returns_zero:
  "\<exists>s. parse_args e name [''--bogus''] = Returned 0 s \<and> result s = kErrUnkownLongOption"
  by (simp add: parse_args_def step_long_unknown exit_label_def parse_init_def
                parse_state.defs args.defs)

lemma unknown_option_returns_zero:
  "\<exists>s. parse_args e name [''-x''] = Returned 0 s \<and> result s = kErrUnkownOption"
  by (simp add: parse_args_def step_unknown exit_label_def parse_init_def
                parse_state.defs args.defs)

lemma input_open_failure_returns_zero:
  "\<not> fopen_ok e ''a.rb'' ''r''
     \<Longrightarrow> \<exists>s. parse_args e name [''a.rb''] = Returned 0 s \<and> rfp s = None \<and> result s = 0"
  by (simp add: parse_args_def step_nonflag select_input_def exit_label_def emit_def
                parse_init_def args_zero_def parse_state.defs args.defs)

lemma output_open_failure_returns_zero:
  "fopen_ok e ''a.rb'' ''r'' \<Longrightarrow> \<not> fopen_ok e ''a.mrb'' ''wb''
     \<Longrightarrow> \<exists>s. parse_args e name [''-O'', ''a.rb''] = Returned 0 s \<and> wfp s = None
              \<and> result s = - 1"
  by (simp add: parse_args_def step_O step_nonflag select_input_def copy_argv_def
                select_output_def get_outfilename_def RITEBIN_EXT_def exit_label_def emit_def
                parse_init_def args_zero_def parse_state.defs args.defs Let_def)

section \<open>Failure of the engine's open operation\<close>

text \<open>
  C10. When \<open>mrb_open0\<close> returns \<open>NULL\<close>, the process writes one message to standard
  error and ends with the failure status; whatever the argument vector, nothing is parsed,
  no file is opened and no other engine operation is called.
\<close>

theorem open_failure_exits_at_once:
  "\<not> open0_ok e \<Longrightarrow>
     main e name av
       = (EXIT_FAILURE, [Mrb_open0, Fprintf_stderr ''Invalid mrb_state, exiting mruby\<newline>'' []])
     \<and> EXIT_FAILURE \<noteq> 0"
  by (simp add: main_def EXIT_FAILURE_def)

theorem open_failure_exits_at_once_witness:
  "\<not> open0_ok (quiet_engine\<lparr> open0_ok := False \<rparr>)
   \<and> main (quiet_engine\<lparr> open0_ok := False \<rparr>) ''mruby'' [''-v'', ''prog.rb'']
       = (1, [Mrb_open0, Fprintf_stderr ''Invalid mrb_state, exiting mruby\<newline>'' []])"
proof -
  have h: "\<not> open0_ok (quiet_engine\<lparr> open0_ok := False \<rparr>)" by simp
  from open_failure_exits_at_once [OF h, of "''mruby''" "[''-v'', ''prog.rb'']"] h
  show ?thesis by (simp add: EXIT_FAILURE_def)
qed

section \<open>Error paths of the process\<close>

text \<open>Three error paths in general form: the status after a script file that does not
  open, the value returned after a lone \<open>-B\<close>, and the compilation context on the two
  kinds of path through the source-mode dispatch.\<close>

lemma unopenable_script_parse:
  assumes "parse_loop name parse_init av = Loop_done s (f # rest)"
    and "rfp s = None" and "cmdline s = None"
    and "\<not> fopen_ok e f (if mrbfile s then ''rb'' else ''r'')"
  shows "\<exists>s'. parse_args e name av = Returned 0 s' \<and> rfp s' = None \<and> cmdline s' = None
           \<and> Printf ''%s: Cannot open program file. (%s)\<newline>'' [S name, S f] \<in> set (trace s')"
proof -
  let ?s1 = "emit [Fopen f (if mrbfile s then ''rb'' else ''r'') False,
                   Printf ''%s: Cannot open program file. (%s)\<newline>'' [S name, S f]]
               (s\<lparr> filename := Some f, infile := Some f \<rparr>)"
  have "select_input e name s (f # rest) = Inl ?s1"
    using assms(2-4) by (simp add: select_input_def Let_def)
  then have pa: "parse_args e name av = exit_label ?s1"
    using assms(1) by (simp add: parse_args_def)
  from exit_label_keeps [of ?s1] obtain s' where
    s': "exit_label ?s1 = Returned 0 s'" "rfp s' = rfp ?s1" "cmdline s' = cmdline ?s1"
    by blast
  have "Printf ''%s: Cannot open program file. (%s)\<newline>'' [S name, S f] \<in> set (trace s')"
    using s'(1) by (auto simp: exit_label_def emit_def split: option.splits prod.splits ptr_origin.splits)
  with pa s' assms(2,3) show ?thesis by (simp add: emit_def)
qed

lemma unopenable_script_exits_zero:
  assumes "open0_ok e" and "parse_loop name parse_init av = Loop_done s (f # rest)"
    and "rfp s = None" and "cmdline s = None"
    and "\<not> fopen_ok e f (if mrbfile s then ''rb'' else ''r'')"
  shows "fst (main e name av) = 0
       \<and> Printf ''%s: Cannot open program file. (%s)\<newline>'' [S name, S f]
           \<in> set (snd (main e name av))"
proof -
  from unopenable_script_parse [OF assms(2-5)] obtain s' where
    "parse_args e name av = Returned 0 s'" "rfp s' = None" "cmdline s' = None"
    "Printf ''%s: Cannot open program file. (%s)\<newline>'' [S name, S f] \<in> set (trace s')"
    by blast
  with assms(1) show ?thesis
    by (simp add: main_def after_parse_def)
qed


lemma lone_B_returns_zero:
  assumes "parse_loop name parse_init pre = Loop_done s []" and "rfp s = None"
  shows "\<exists>s'. parse_args e name (pre @ ''-B'' # post) = Returned 0 s'
           \<and> result s' = kErrNoFunctionName \<and> cmdline s' = cmdline s \<and> rfp s' = None"
proof -
  let ?s1 = "(emit [Printf ''%s: Function name is not specified.\<newline>'' [S name]]
                (s\<lparr> ext := C_EXT, initname := Some [] \<rparr>))\<lparr> result := kErrNoFunctionName \<rparr>"
  have "parse_loop name parse_init (pre @ ''-B'' # post) = Goto_exit ?s1"
    using parse_loop_append [OF assms, of "''-B'' # post"] by (simp add: step_B_empty)
  then have pa: "parse_args e name (pre @ ''-B'' # post) = exit_label ?s1"
    by (simp add: parse_args_def)
  have "\<exists>s'. exit_label ?s1 = Returned 0 s' \<and> result s' = kErrNoFunctionName
          \<and> cmdline s' = cmdline s \<and> rfp s' = None"
    using assms(2)
    by (cases "outfile s")
       (auto simp: exit_label_def emit_def split: ptr_origin.splits)
  with pa show ?thesis by simp
qed


lemma cleanup_no_context_event:
  "Mrbc_context_free \<notin> set (cleanup a)"
  by (simp add: cleanup_def split: option.splits)

lemma rejected_load_skips_context_free:
  assumes "wfp a = Some w" and "\<not> check_syntax a"
    and "mrb_undef_p (load_v e) \<or> mrb_fixnum (load_v e) < 0"
  shows "fst (dispatch_source e a n) = EXIT_FAILURE
       \<and> Mrbc_context_new \<in> set (snd (dispatch_source e a n))
       \<and> Mrbc_context_free \<notin> set (snd (dispatch_source e a n))"
proof -
  let ?evs = "[Mrbc_context_new, Mrbc_filename (filename a)]
                @ (case rfp a of
                     Some f \<Rightarrow> [Mrb_load_file_cxt f (verbose a) True]
                   | None \<Rightarrow> [Mrb_load_string_cxt (cmdline a) (verbose a) True])"
  have d: "dispatch_source e a n = (EXIT_FAILURE, ?evs @ cleanup a)"
    using assms by (simp add: dispatch_source_def Let_def)
  have "Mrbc_context_free \<notin> set ?evs" by (simp split: option.splits)
  with d cleanup_no_context_event [of a] show ?thesis by simp
qed


lemma after_dispatch_frees_context:
  "Mrbc_context_free \<in> set (snd (after_dispatch e a n evs))"
  by (simp add: after_dispatch_def finish_def Let_def)

lemma other_paths_free_context:
  assumes "wfp a = None \<or> check_syntax a
             \<or> \<not> (mrb_undef_p (load_v e) \<or> mrb_fixnum (load_v e) < 0)"
  shows "Mrbc_context_free \<in> set (snd (dispatch_source e a n))"
proof (cases "wfp a")
  case None
  then show ?thesis
    by (simp add: dispatch_source_def Let_def after_dispatch_frees_context)
next
  case (Some w)
  show ?thesis
  proof (cases "check_syntax a")
    case True
    with Some show ?thesis
      by (simp add: dispatch_source_def Let_def after_dispatch_frees_context)
  next
    case False
    with Some assms show ?thesis
      by (cases "initname a")
         (simp_all add: dispatch_source_def Let_def after_dispatch_frees_context)
  qed
qed

text \<open>
  C1 says that a run whose script file cannot be opened prints the open-file error with the
  path, compiles and executes nothing, and exits with a nonzero status. At the input
  \<open>mruby missing.rb\<close> the code does the first two and then returns the status 0, the
  value \<open>parse_args\<close> returned.
\<close>

theorem missing_script_status:
  "main (quiet_engine\<lparr> fopen_ok := (\<lambda>path mode. False) \<rparr>) ''mruby'' [''missing.rb'']
     = (0, [Mrb_open0, Fopen ''missing.rb'' ''r'' False,
            Printf ''%s: Cannot open program file. (%s)\<newline>'' [S ''mruby'', S ''missing.rb''],
            Mrb_close] @ usage ''mruby'')"
  by code_simp

text \<open>
  C2 says that a lone \<open>-B\<close> makes parsing fail with the missing-function-name condition,
  with a failing status, and that no script is loaded, compiled or executed. The code prints
  the message and stores the error code in \<open>result\<close>, but \<open>parse_args\<close> returns 0:
  alone on the command line the flag ends the process with status 0, and after \<open>-e\<close> the
  inline script is loaded and run.
\<close>

theorem lone_B_status:
  "main quiet_engine ''mruby'' [''-B'']
     = (0, [Mrb_open0, Printf ''%s: Function name is not specified.\<newline>'' [S ''mruby''],
            Mrb_close] @ usage ''mruby'')
   \<and> main quiet_engine ''mruby'' [''-e'', ''p 1'', ''-B'']
     = (0, [Mrb_open0, Malloc Cmdline_buf,
            Printf ''%s: Function name is not specified.\<newline>'' [S ''mruby''],
            Mrb_init_libs, Mrb_define_global_const ''ARGV'' [], Mrbc_context_new,
            Mrbc_filename (Some ''-e''), Mrb_load_string_cxt (Some ''p 1'') False False,
            Mrbc_context_free, Free Cmdline_buf, Mrb_close])"
  by code_simp

text \<open>
  C4 says that every resource is released exactly once on every exit path, the compilation
  context included, also where a load result that is undefined or negative makes the
  process fail at once. At the input \<open>mruby -O bad.rb\<close>, with a loader that returns the
  undefined value, the code returns the failure status straight after \<open>cleanup\<close>: the
  streams and the argument vector are released, the compilation context created for the
  load is not.
\<close>

theorem rejected_script_keeps_context:
  "main (quiet_engine\<lparr> load_v := \<lparr> mrb_undef_p = True, mrb_fixnum = 0 \<rparr> \<rparr>) ''mruby''
        [''-O'', ''bad.rb'']
     = (1, [Mrb_open0, Fopen ''bad.rb'' ''r'' True, Realloc Argv_buf, Malloc Outfile_buf,
            Fopen ''bad.mrb'' ''wb'' True, Free Outfile_buf,
            Mrb_define_global_const ''ARGV'' [], Mrbc_context_new,
            Mrbc_filename (Some ''bad.rb''),
            Mrb_load_file_cxt (Fp ''bad.rb'' ''r'') False True,
            Fclose (Fp ''bad.rb'' ''r''), Fclose (Fp ''bad.mrb'' ''wb''), Free Argv_buf,
            Mrb_close])"
  by code_simp

section \<open>Immediate exits\<close>

text \<open>
  C9. When the loop reaches \<open>--version\<close> or \<open>--copyright\<close>, that is, when the tokens
  before it have all been consumed as flags, whichever they are, the process prints the
  text and calls \<open>exit(0)\<close> there: the status is 0, the trace ends with that call, and no
  file has been opened or closed, whatever follows on the command line.
\<close>

theorem version_and_copyright_exit_at_once:
  assumes "open0_ok e"
    and "parse_loop name parse_init pre = Loop_done s []"
    and "rfp s = None"
  shows "main e name (pre @ ''--version'' # post)
           = (0, Mrb_open0 # trace s @ [Mrb_show_version, Exit_call 0])
       \<and> main e name (pre @ ''--copyright'' # post)
           = (0, Mrb_open0 # trace s @ [Mrb_show_copyright, Exit_call 0])
       \<and> (\<forall>path mode ok.
             Fopen path mode ok \<notin> set (snd (main e name (pre @ ''--version'' # post)))
             \<and> Fopen path mode ok \<notin> set (snd (main e name (pre @ ''--copyright'' # post))))
       \<and> (\<forall>f. Fclose f \<notin> set (snd (main e name (pre @ ''--version'' # post)))
             \<and> Fclose f \<notin> set (snd (main e name (pre @ ''--copyright'' # post))))"
proof -
  have v: "parse_loop name parse_init (pre @ ''--version'' # post)
             = Exit_in_loop 0 (trace s @ [Mrb_show_version, Exit_call 0])"
    using parse_loop_append [OF assms(2,3)] by (simp add: step_version)
  have c: "parse_loop name parse_init (pre @ ''--copyright'' # post)
             = Exit_in_loop 0 (trace s @ [Mrb_show_copyright, Exit_call 0])"
    using parse_loop_append [OF assms(2,3)] by (simp add: step_copyright)
  have mv: "main e name (pre @ ''--version'' # post)
              = (0, Mrb_open0 # trace s @ [Mrb_show_version, Exit_call 0])"
    using v assms(1) by (simp add: main_def parse_args_def)
  have mc: "main e name (pre @ ''--copyright'' # post)
              = (0, Mrb_open0 # trace s @ [Mrb_show_copyright, Exit_call 0])"
    using c assms(1) by (simp add: main_def parse_args_def)
  have "set (trace s) \<subseteq> loop_events"
    using parse_loop_trace [OF assms(2)] by (simp add: parse_init_fields)
  then have io: "(\<forall>path mode ok. Fopen path mode ok \<notin> set (trace s))
                 \<and> (\<forall>f. Fclose f \<notin> set (trace s))"
    by (auto simp: loop_events_def)
  from mv mc io show ?thesis by simp
qed

theorem version_and_copyright_exit_at_once_witness:
  "open0_ok quiet_engine
   \<and> main quiet_engine ''mruby'' [''-v'', ''-O'', ''--version'', ''prog.rb'']
       = (0, [Mrb_open0, Mrb_show_version, Mrb_show_version, Exit_call 0])
   \<and> main quiet_engine ''mruby'' [''-v'', ''-O'', ''--copyright'', ''prog.rb'']
       = (0, [Mrb_open0, Mrb_show_version, Mrb_show_copyright, Exit_call 0])"
proof -
  let ?s = "(emit [Mrb_show_version] parse_init)\<lparr> verbose := True, output_flag := True \<rparr>"
  have l: "parse_loop ''mruby'' parse_init [''-v'', ''-O''] = Loop_done ?s []"
    by (simp add: step_v step_O)
  have r: "rfp ?s = None" by (simp add: emit_def parse_init_fields)
  have o: "open0_ok quiet_engine" by (simp add: quiet_engine_def)
  have t: "trace ?s = [Mrb_show_version]" by (simp add: emit_def parse_init_fields)
  from version_and_copyright_exit_at_once [OF o l r, of "[''prog.rb'']"] t o
  show ?thesis by simp
qed

section \<open>Inline commands\<close>

text \<open>The loop steps over each of the other flags without touching \<open>cmdline\<close>, and each
  inline command appends its fragment.\<close>

lemma steps_over_step:
  assumes "steps_over t"
  shows "\<exists>s1. (\<forall>ts. parse_loop name s (t # ts) = parse_loop name s1 ts)
           \<and> cmdline s1 = cmdline s \<and> rfp s1 = rfp s"
proof -
  from assms obtain c item where t: "t = CHR ''-'' # c # item"
    and c: "c \<in> {CHR ''b'', CHR ''c'', CHR ''v'', CHR ''O'', CHR ''o''}
            \<or> (c = CHR ''B'' \<and> item \<noteq> []) \<or> (c = CHR ''-'' \<and> item = ''verbose'')"
    by (auto simp: steps_over_def split: list.splits)
  from c consider (b) "c = CHR ''b''" | (c) "c = CHR ''c''" | (v) "c = CHR ''v''"
    | (O) "c = CHR ''O''" | (o) "c = CHR ''o''" | (B) "c = CHR ''B''" "item \<noteq> []"
    | (verbose) "c = CHR ''-''" "item = ''verbose''"
    by auto
  then show ?thesis
  proof cases
    case b
    show ?thesis
      by (rule exI [of _ "s\<lparr> mrbfile := True \<rparr>"]) (simp add: t b step_b)
  next
    case c
    show ?thesis
      by (rule exI [of _ "s\<lparr> check_syntax := True \<rparr>"]) (simp add: t c step_c)
  next
    case v
    show ?thesis
      by (rule exI [of _ "(emit [Mrb_show_version] s)\<lparr> verbose := True \<rparr>"])
         (simp add: t v step_v emit_def)
  next
    case O
    show ?thesis
      by (rule exI [of _ "s\<lparr> output_flag := True \<rparr>"]) (simp add: t O step_O)
  next
    case o
    show ?thesis
      by (rule exI [of _ "(emit [Malloc Outfile_buf] s)
                            \<lparr> outfile := Some (Malloced, get_outfilename item []) \<rparr>"])
         (simp add: t o step_o emit_def)
  next
    case B
    show ?thesis
      by (rule exI [of _ "s\<lparr> ext := C_EXT, initname := Some item \<rparr>"])
         (simp add: t B step_B)
  next
    case verbose
    show ?thesis
      by (rule exI [of _ "s\<lparr> verbose := True \<rparr>"]) (simp add: t verbose step_verbose)
  qed
qed

lemma append_cmdline_accumulate:
  "cmdline (append_cmdline c s) = accumulate (cmdline s) [c]"
  by (simp add: append_cmdline_def emit_def split: option.splits)

lemma parse_loop_occurrences:
  "\<forall>x \<in> set sw. occurrence_ok x
     \<Longrightarrow> \<exists>s'. (\<forall>tail. parse_loop name s (concat (map occurrence_tokens sw) @ tail)
                         = parse_loop name s' tail)
            \<and> cmdline s' = accumulate (cmdline s) (fragments sw) \<and> rfp s' = rfp s"
proof (induction sw arbitrary: s)
  case Nil
  show ?case by (rule exI [of _ s]) simp
next
  case (Cons x sw)
  then have ok: "occurrence_ok x" and rest: "\<forall>y \<in> set sw. occurrence_ok y" by simp_all
  show ?case
  proof (cases x)
    case (Inline_attached code)
    let ?s1 = "append_cmdline code (s\<lparr> filename := Some ''-e'' \<rparr>)"
    from Cons.IH [OF rest, of ?s1] obtain s' where
      s': "\<forall>tail. parse_loop name ?s1 (concat (map occurrence_tokens sw) @ tail)
                    = parse_loop name s' tail"
        "cmdline s' = accumulate (cmdline ?s1) (fragments sw)" "rfp s' = rfp ?s1"
      by blast
    show ?thesis
      using s' ok Inline_attached
      by (intro exI [of _ s'])
         (simp add: step_e_attached append_cmdline_accumulate append_cmdline_others)
  next
    case (Inline_separate code)
    let ?s1 = "append_cmdline code (s\<lparr> filename := Some ''-e'' \<rparr>)"
    from Cons.IH [OF rest, of ?s1] obtain s' where
      s': "\<forall>tail. parse_loop name ?s1 (concat (map occurrence_tokens sw) @ tail)
                    = parse_loop name s' tail"
        "cmdline s' = accumulate (cmdline ?s1) (fragments sw)" "rfp s' = rfp ?s1"
      by blast
    show ?thesis
      using s' Inline_separate
      by (intro exI [of _ s'])
         (simp add: step_e_separate append_cmdline_accumulate append_cmdline_others)
  next
    case (Other_flag t)
    with ok have "steps_over t" by simp
    from steps_over_step [OF this, of name s] obtain s1 where
      s1: "\<forall>ts. parse_loop name s (t # ts) = parse_loop name s1 ts"
        "cmdline s1 = cmdline s" "rfp s1 = rfp s"
      by blast
    from Cons.IH [OF rest, of s1] obtain s' where
      s': "\<forall>tail. parse_loop name s1 (concat (map occurrence_tokens sw) @ tail)
                    = parse_loop name s' tail"
        "cmdline s' = accumulate (cmdline s1) (fragments sw)" "rfp s' = rfp s1"
      by blast
    show ?thesis
      using s' s1 Other_flag
      by (intro exI [of _ s']) simp
  qed
qed

lemma accumulate_Some:
  "accumulate (Some old) cs = Some (join_newline (old # cs))"
proof (induction cs arbitrary: old)
  case Nil
  then show ?case by simp
next
  case (Cons c cs)
  show ?case
    using Cons.IH [of "old @ [CHR 0x0A] @ c"]
      join_newline_append_head [of old "[CHR 0x0A] @ c" cs]
    by (cases cs) simp_all
qed

lemma accumulate_None:
  "cs \<noteq> [] \<Longrightarrow> accumulate None cs = Some (join_newline cs)"
  by (cases cs) (simp_all add: accumulate_Some)


lemma parse_loop_stop_token:
  assumes "tail = [] \<or> \<not> is_flag (hd tail)"
  shows "\<exists>s' rest. parse_loop name s tail = Loop_done s' rest \<and> cmdline s' = cmdline s"
proof (cases tail)
  case Nil
  then show ?thesis by simp
next
  case (Cons t ts)
  with assms have nf: "\<not> is_flag t" by simp
  show ?thesis
  proof (cases "t = [] \<or> hd t \<noteq> CHR ''-''")
    case True
    then show ?thesis using Cons by (simp add: step_nonflag)
  next
    case False
    with nf have "t = ''-''" by (cases t) (auto simp: is_flag_def)
    then show ?thesis using Cons by (simp add: step_dash)
  qed
qed

lemma load_string_event:
  assumes "rfp a = None"
  shows "Mrb_load_string_cxt (cmdline a) (verbose a) (check_syntax a \<or> wfp a \<noteq> None)
           \<in> set (snd (dispatch_source e a n))"
proof -
  let ?ev = "Mrb_load_string_cxt (cmdline a) (verbose a) (check_syntax a \<or> wfp a \<noteq> None)"
  have ad: "x \<in> set evs \<Longrightarrow> x \<in> set (snd (after_dispatch e a m evs))" for x evs m
    by (auto simp: after_dispatch_def finish_def Let_def)
  show ?thesis
  proof (cases "wfp a")
    case None
    with assms show ?thesis
      by (simp add: dispatch_source_def Let_def ad)
  next
    case (Some w)
    with assms show ?thesis
      by (cases "initname a") (simp_all add: dispatch_source_def Let_def ad)
  qed
qed

text \<open>
  C7. \<open>-e\<close> may be given any number of times, in either form, with any of the other
  flags before, between and after its occurrences, and with any tokens after the flags
  (script arguments, or a lone \<open>-\<close>): the text \<open>parse_args\<close> leaves in \<open>cmdline\<close> is
  the fragments in the order given, with one newline between each two, and it is the text
  \<open>main\<close> hands to the loader when the script is the inline one (no lone \<open>-\<close>, no
  \<open>-b\<close>). For \<open>-e a -e b\<close> it is \<open>a\<close>, newline, \<open>b\<close>.
\<close>

theorem inline_commands_accumulate:
  assumes "\<forall>x \<in> set sw. occurrence_ok x" and "fragments sw \<noteq> []"
    and "tail = [] \<or> \<not> is_flag (hd tail)"
    and "open0_ok e"
  shows "(\<exists>s. parse_args e name (concat (map occurrence_tokens sw) @ tail) = Returned 0 s
              \<and> cmdline s = Some (join_newline (fragments sw))
              \<and> (rfp s = None \<and> \<not> mrbfile s
                    \<longrightarrow> Mrb_load_string_cxt (Some (join_newline (fragments sw))) (verbose s)
                          (check_syntax s \<or> wfp s \<noteq> None)
                        \<in> set (snd (main e name (concat (map occurrence_tokens sw) @ tail)))))
       \<and> join_newline [''a'', ''b''] = ''a'' @ [CHR 0x0A] @ ''b''"
proof -
  let ?av = "concat (map occurrence_tokens sw) @ tail"
  let ?script = "join_newline (fragments sw)"
  from parse_loop_occurrences [OF assms(1), of name parse_init] obtain s1 where
    s1: "parse_loop name parse_init ?av = parse_loop name s1 tail"
      "cmdline s1 = accumulate None (fragments sw)"
    by (auto simp: parse_init_fields)
  from parse_loop_stop_token [OF assms(3), of name s1] obtain s2 rest where
    s2: "parse_loop name s1 tail = Loop_done s2 rest" "cmdline s2 = cmdline s1"
    by blast
  have cl: "cmdline s2 = Some ?script"
    using s1(2) s2(2) accumulate_None [OF assms(2)] by simp
  have loop: "parse_loop name parse_init ?av = Loop_done s2 rest"
    using s1(1) s2(1) by simp
  have si: "select_input e name s2 rest = Inr (s2, rest)"
    using cl by (simp add: select_input_def)
  from parse_args_after_loop [OF loop si] obtain s3 where
    s3: "parse_args e name ?av = Returned 0 s3" "cmdline s3 = cmdline s2"
    by blast
  have ld: "Mrb_load_string_cxt (Some ?script) (verbose s3) (check_syntax s3 \<or> wfp s3 \<noteq> None)
              \<in> set (snd (main e name ?av))"
    if r: "rfp s3 = None" and m: "\<not> mrbfile s3"
  proof -
    have i: "cmdline s3 \<noteq> None \<or> rfp s3 \<noteq> None" using s3(2) cl by simp
    have b: "rfp s3 = Some Stdin
               \<longrightarrow> wfp s3 \<noteq> None \<or> stdin_is_fifo e \<or> stdin_size e \<noteq> 0"
      using r by simp
    from main_batch [OF assms(4) s3(1) i b] m
    have "set (snd (dispatch_source e s3 0)) \<subseteq> set (snd (main e name ?av))"
      by auto
    with load_string_event [OF r, where e = e and n = 0] s3(2) cl show ?thesis by auto
  qed
  from s3 cl ld show ?thesis by auto
qed

theorem inline_commands_accumulate_witness:
  "(\<exists>s. parse_args quiet_engine ''mruby'' [''-v'', ''-e'', ''a'', ''-c'', ''-eb'', ''arg'', ''-x'']
          = Returned 0 s
        \<and> cmdline s = Some (''a'' @ [CHR 0x0A] @ ''b''))
   \<and> Mrb_load_string_cxt (Some (''a'' @ [CHR 0x0A] @ ''b'')) True True
       \<in> set (snd (main quiet_engine ''mruby''
                     [''-v'', ''-e'', ''a'', ''-c'', ''-eb'', ''arg'', ''-x'']))"
proof -
  let ?sw = "[Other_flag ''-v'', Inline_separate ''a'', Other_flag ''-c'', Inline_attached ''b'']"
  let ?av = "[''-v'', ''-e'', ''a'', ''-c'', ''-eb'', ''arg'', ''-x'']"
  have w: "\<forall>x \<in> set ?sw. occurrence_ok x" by (simp add: steps_over_def)
  have f: "fragments ?sw \<noteq> []" by simp
  have t: "[''arg'', ''-x''] = [] \<or> \<not> is_flag (hd [''arg'', ''-x''])" by (simp add: is_flag_def)
  have o: "open0_ok quiet_engine" by (simp add: quiet_engine_def)
  from inline_commands_accumulate [OF w f t o, of "''mruby''"] obtain s where
    s: "parse_args quiet_engine ''mruby'' ?av = Returned 0 s"
      "cmdline s = Some (''a'' @ [CHR 0x0A] @ ''b'')"
      "rfp s = None \<and> \<not> mrbfile s
         \<longrightarrow> Mrb_load_string_cxt (Some (''a'' @ [CHR 0x0A] @ ''b'')) (verbose s)
               (check_syntax s \<or> wfp s \<noteq> None)
             \<in> set (snd (main quiet_engine ''mruby'' ?av))"
    by auto
  have "case parse_args quiet_engine ''mruby'' ?av of
          Returned n x \<Rightarrow> rfp x = None \<and> \<not> mrbfile x \<and> verbose x \<and> check_syntax x
        | Exited code tr \<Rightarrow> False"
    by code_simp
  with s(1) have "rfp s = None" "\<not> mrbfile s" "verbose s" "check_syntax s" by simp_all
  with s show ?thesis by auto
qed

section \<open>The derived output filename\<close>








text \<open>The last dot counts wherever it stands in the name as given.\<close>

lemma get_outfilename_examples:
  "get_outfilename ''foo.rb'' ''.mrb'' = ''foo.mrb''"
  "get_outfilename ''foo'' ''.mrb'' = ''foo.mrb''"
  "get_outfilename ''a.b.rb'' ''.c'' = ''a.b.c''"
  "get_outfilename ''dir.d/foo'' ''.mrb'' = ''dir.mrb''"
  "get_outfilename ''./foo'' ''.mrb'' = ''.mrb''"
  by (simp_all add: get_outfilename_def)









text \<open>With \<open>-B\<close> and a symbol the extension is \<open>.c\<close>.\<close>

lemma derived_output_filename_symbol_example:
  "(case parse_args quiet_engine ''mruby'' [''-O'', ''-Binit_foo'', ''foo.rb''] of
      Returned n s \<Rightarrow> wfp s = Some (Fp ''foo.c'' ''wb'') \<and> initname s = Some ''init_foo''
    | Exited code tr \<Rightarrow> False)"
  by code_simp

section \<open>The stop point and the script's arguments\<close>




text \<open>After a lone \<open>-\<close>, and after inline code, every token left is an argument of the
  script, flag-like or not.\<close>

lemma script_arguments_examples:
  "main quiet_engine ''mruby'' [''-'', ''a'', ''b'']
     = (0, [Mrb_open0, Realloc Argv_buf, Mrb_init_libs, Fstat_stdin,
            Mrb_define_global_const ''ARGV'' [''a'', ''b''], Mrbc_context_new,
            Mrbc_filename (Some ''-''), Mrb_load_file_cxt Stdin False False,
            Mrbc_context_free, Free Argv_buf, Mrb_close])"
  "main quiet_engine ''mruby'' [''-e'', ''p ARGV'', ''x'', ''-y'']
     = (0, [Mrb_open0, Malloc Cmdline_buf, Realloc Argv_buf, Mrb_init_libs,
            Mrb_define_global_const ''ARGV'' [''x'', ''-y''], Mrbc_context_new,
            Mrbc_filename (Some ''-e''), Mrb_load_string_cxt (Some ''p ARGV'') False False,
            Mrbc_context_free, Free Cmdline_buf, Free Argv_buf, Mrb_close])"
  by code_simp+

section \<open>Unhandled exceptions\<close>

text \<open>The loop of \<open>showcallinfo\<close> visits the indices from the starting one down to 0.\<close>

lemma showcallinfo_loop_walk:
  "showcallinfo_loop e k i = concat (map (showcallinfo_frame e k) (rev [0..i]))"
proof (induction e k i rule: showcallinfo_loop.induct)
  case (1 e k i)
  show ?case
  proof (cases "0 \<le> i")
    case True
    then have "[0..i] = [0..i - 1] @ [i]" by (simp add: upto_rec2)
    with True "1.IH" show ?thesis by simp
  next
    case False
    then show ?thesis by simp
  qed
qed

lemma showcallinfo_walk:
  "showcallinfo e
     = Printf ''trace:\<newline>'' []
         # concat (map (showcallinfo_frame e (if ci_count e \<le> exc_ciidx e then 10 else exc_ciidx e))
                       (rev [0..(if ci_count e \<le> exc_ciidx e then 10 else exc_ciidx e)]))"
  by (simp add: showcallinfo_def showcallinfo_loop_walk Let_def del: showcallinfo_loop.simps)

lemma showcallinfo_frame_cfunc:
  "cfunc_p (ci_proc (cibase e i)) \<Longrightarrow> showcallinfo_frame e k i = []"
  by (simp add: showcallinfo_frame_def)

lemma dispatch_exception:
  assumes "if mrbfile a then 0 \<le> read_irep_ret e \<and> \<not> check_syntax a \<and> run_exc e
           else wfp a = None \<and> \<not> check_syntax a \<and> load_exc e \<and> \<not> mrb_undef_p (load_v e)"
  shows "\<exists>before. (if mrbfile a then dispatch_bytecode e a else dispatch_source e a 0)
           = (EXIT_FAILURE, before @ showcallinfo e @ [P_exc] @ cleanup a)"
proof (cases "mrbfile a")
  case True
  with assms have "dispatch_bytecode e a
      = (EXIT_FAILURE, [Mrb_read_irep_file (rfp a), Mrb_run (read_irep_ret e)]
           @ showcallinfo e @ [P_exc] @ cleanup a)"
    by (simp add: dispatch_bytecode_def finish_def Let_def)
  with True show ?thesis
    by (intro exI [of _ "[Mrb_read_irep_file (rfp a), Mrb_run (read_irep_ret e)]"]) simp
next
  case False
  let ?evs = "[Mrbc_context_new, Mrbc_filename (filename a)]
                @ (case rfp a of
                     Some f \<Rightarrow> [Mrb_load_file_cxt f (verbose a) False]
                   | None \<Rightarrow> [Mrb_load_string_cxt (cmdline a) (verbose a) False])
                @ [Mrbc_context_free]"
  from False assms have "dispatch_source e a 0
      = (EXIT_FAILURE, ?evs @ showcallinfo e @ [P_exc] @ cleanup a)"
    by (simp add: dispatch_source_def after_dispatch_def finish_def Let_def)
  with False show ?thesis
    by (intro exI [of _ ?evs]) simp
qed

lemma showcallinfo_frame_spec:
  "showcallinfo_frame e k i
     = (if cfunc_p (ci_proc (cibase e i)) \<or> spec_frame_line e k i = - 1 then []
        else [spec_frame_report e i (spec_frame_line e k i)])"
  by (auto simp: showcallinfo_frame_def spec_frame_line_def spec_frame_report_def Let_def
           split: option.splits)

lemma dispatch_exception_status:
  assumes "if mrbfile a then 0 \<le> read_irep_ret e \<and> \<not> check_syntax a \<and> run_exc e
           else wfp a = None \<and> \<not> check_syntax a \<and> load_exc e"
  shows "fst (if mrbfile a then dispatch_bytecode e a else dispatch_source e a 0) = EXIT_FAILURE"
  using assms
  by (cases "mrbfile a")
     (simp_all add: dispatch_bytecode_def dispatch_source_def after_dispatch_def finish_def
                    Let_def)

text \<open>
  C5. A run that reaches the dispatch and executes the script (bytecode that loaded, or
  source with neither \<open>-c\<close> nor an output file) and finds an exception pending afterwards
  ends with the failure status, and before \<open>cleanup\<close> it prints the trace and then the
  inspected exception; in source mode this is for a loader result other than the undefined
  value, which is what the loader returns when nothing was run. The trace is the line
  \<open>trace:\<close> and then what the frames at the indices from the starting index down to 0
  print; the starting index is the one stored in the exception, or 10 when that one is not
  below the number of call-info records. A frame of a native procedure and a frame without
  a line print nothing; every other frame prints its one line, with its index, filename,
  line and, where they have names, class and method.
\<close>

theorem unhandled_exception_reported:
  assumes "open0_ok e" and "parse_args e name av = Returned n s"
    and "cmdline s \<noteq> None \<or> rfp s \<noteq> None"
    and "rfp s = Some Stdin \<longrightarrow> wfp s \<noteq> None \<or> stdin_is_fifo e \<or> stdin_size e \<noteq> 0"
    and "if mrbfile s then 0 \<le> read_irep_ret e \<and> \<not> check_syntax s \<and> run_exc e
         else wfp s = None \<and> \<not> check_syntax s \<and> load_exc e"
  shows "fst (main e name av) = EXIT_FAILURE \<and> EXIT_FAILURE \<noteq> 0
       \<and> (mrbfile s \<or> \<not> mrb_undef_p (load_v e)
            \<longrightarrow> (\<exists>before. snd (main e name av)
                             = before @ showcallinfo e @ [P_exc] @ cleanup s))
       \<and> showcallinfo e
           = Printf ''trace:\<newline>'' []
               # concat (map (showcallinfo_frame e
                                (if ci_count e \<le> exc_ciidx e then 10 else exc_ciidx e))
                             (rev [0..(if ci_count e \<le> exc_ciidx e then 10 else exc_ciidx e)]))
       \<and> (\<forall>k i. showcallinfo_frame e k i
                  = (if cfunc_p (ci_proc (cibase e i)) \<or> spec_frame_line e k i = - 1 then []
                     else [spec_frame_report e i (spec_frame_line e k i)]))"
proof -
  from main_batch [OF assms(1-4)] obtain before where
    m: "main e name av
          = (fst (if mrbfile s then dispatch_bytecode e s else dispatch_source e s 0),
             before @ define_ARGV s
               @ snd (if mrbfile s then dispatch_bytecode e s else dispatch_source e s 0))"
    by blast
  have st: "fst (main e name av) = EXIT_FAILURE"
    using m dispatch_exception_status [OF assms(5)] by simp
  have tr: "\<exists>before. snd (main e name av) = before @ showcallinfo e @ [P_exc] @ cleanup s"
    if u: "mrbfile s \<or> \<not> mrb_undef_p (load_v e)"
  proof -
    have "if mrbfile s then 0 \<le> read_irep_ret e \<and> \<not> check_syntax s \<and> run_exc e
          else wfp s = None \<and> \<not> check_syntax s \<and> load_exc e \<and> \<not> mrb_undef_p (load_v e)"
      using assms(5) u by (simp split: if_splits)
    from dispatch_exception [OF this] obtain mid where
      d: "(if mrbfile s then dispatch_bytecode e s else dispatch_source e s 0)
            = (EXIT_FAILURE, mid @ showcallinfo e @ [P_exc] @ cleanup s)"
      by blast
    have "snd (main e name av)
            = (before @ define_ARGV s @ mid) @ showcallinfo e @ [P_exc] @ cleanup s"
      using m d by simp
    then show ?thesis by blast
  qed
  have fr: "\<forall>k i. showcallinfo_frame e k i
                  = (if cfunc_p (ci_proc (cibase e i)) \<or> spec_frame_line e k i = - 1 then []
                     else [spec_frame_report e i (spec_frame_line e k i)])"
    using showcallinfo_frame_spec by blast
  from st tr showcallinfo_walk [of e] fr show ?thesis
    by (simp add: EXIT_FAILURE_def)
qed

theorem unhandled_exception_reported_witness:
  "main raising_engine ''mruby'' [''boom.rb'']
     = (1, [Mrb_open0, Fopen ''boom.rb'' ''r'' True, Realloc Argv_buf, Mrb_init_libs,
            Mrb_define_global_const ''ARGV'' [], Mrbc_context_new,
            Mrbc_filename (Some ''boom.rb''),
            Mrb_load_file_cxt (Fp ''boom.rb'' ''r'') False False, Mrbc_context_free,
            Printf ''trace:\<newline>'' [],
            Printf (CHR 0x09 # ''[%d] %s:%d:in %s%s%s\<newline>'')
              [D 1, S ''boom.rb'', D 7, S ''Object'', S ''.'', S ''explode''],
            Printf (CHR 0x09 # ''[%d] %s:%d\<newline>'') [D 0, S ''boom.rb'', D 12],
            P_exc, Fclose (Fp ''boom.rb'' ''r''), Free Argv_buf, Mrb_close])"
proof -
  have "\<exists>s. parse_args raising_engine ''mruby'' [''boom.rb''] = Returned 0 s
          \<and> cmdline s = None \<and> rfp s = Some (Fp ''boom.rb'' ''r'') \<and> wfp s = None
          \<and> \<not> mrbfile s \<and> \<not> check_syntax s"
    by (simp add: parse_args_def step_nonflag select_input_def copy_argv_def
                  select_output_def exit_label_def emit_def parse_init_fields
                  raising_engine_def quiet_engine_def Let_def)
  then obtain s where s: "parse_args raising_engine ''mruby'' [''boom.rb''] = Returned 0 s"
    "cmdline s = None" "rfp s = Some (Fp ''boom.rb'' ''r'')" "wfp s = None"
    "\<not> mrbfile s" "\<not> check_syntax s"
    by blast
  have o: "open0_ok raising_engine" by (simp add: raising_engine_def quiet_engine_def)
  have i: "cmdline s \<noteq> None \<or> rfp s \<noteq> None" using s(3) by simp
  have b: "rfp s = Some Stdin
             \<longrightarrow> wfp s \<noteq> None \<or> stdin_is_fifo raising_engine \<or> stdin_size raising_engine \<noteq> 0"
    using s(3) by simp
  have x: "if mrbfile s
           then 0 \<le> read_irep_ret raising_engine \<and> \<not> check_syntax s \<and> run_exc raising_engine
           else wfp s = None \<and> \<not> check_syntax s \<and> load_exc raising_engine"
    using s(4,5,6) by (simp add: raising_engine_def quiet_engine_def)
  from unhandled_exception_reported [OF o s(1) i b x]
  have st: "fst (main raising_engine ''mruby'' [''boom.rb'']) = 1"
    by (simp add: EXIT_FAILURE_def)
  have tr: "snd (main raising_engine ''mruby'' [''boom.rb''])
     = [Mrb_open0, Fopen ''boom.rb'' ''r'' True, Realloc Argv_buf, Mrb_init_libs,
            Mrb_define_global_const ''ARGV'' [], Mrbc_context_new,
            Mrbc_filename (Some ''boom.rb''),
            Mrb_load_file_cxt (Fp ''boom.rb'' ''r'') False False, Mrbc_context_free,
            Printf ''trace:\<newline>'' [],
            Printf (CHR 0x09 # ''[%d] %s:%d:in %s%s%s\<newline>'')
              [D 1, S ''boom.rb'', D 7, S ''Object'', S ''.'', S ''explode''],
            Printf (CHR 0x09 # ''[%d] %s:%d\<newline>'') [D 0, S ''boom.rb'', D 12],
            P_exc, Fclose (Fp ''boom.rb'' ''r''), Free Argv_buf, Mrb_close]"
    by code_simp
  from st tr show ?thesis by (metis prod.collapse)
qed

text \<open>What that run prints: the native frame is skipped, the method frame and the
  top-level frame give a line each. With a stored index that is out of range the walk
  starts at 10.\<close>

lemma showcallinfo_example:
  "showcallinfo raising_engine
     = [Printf ''trace:\<newline>'' [],
        Printf (CHR 0x09 # ''[%d] %s:%d:in %s%s%s\<newline>'')
          [D 1, S ''boom.rb'', D 7, S ''Object'', S ''.'', S ''explode''],
        Printf (CHR 0x09 # ''[%d] %s:%d\<newline>'') [D 0, S ''boom.rb'', D 12]]"
  by code_simp

lemma showcallinfo_clamped_example:
  "showcallinfo (raising_engine\<lparr> exc_ciidx := 40 \<rparr>)
     = Printf ''trace:\<newline>'' []
         # showcallinfo_loop (raising_engine\<lparr> exc_ciidx := 40 \<rparr>) 10 10"
  by (simp add: showcallinfo_def raising_engine_def quiet_engine_def Let_def
           del: showcallinfo_loop.simps)

end
